theory Spec2Isabelle
  imports Complex_Main
begin

section \<open>Student Performance API: the statistics engine and its routes\<close>

text \<open>
  A shallow embedding of \<^verbatim>\<open>main.py\<close>. Python floats are idealised as rationals:
  arithmetic is exact, and there is neither NaN nor an infinity. Every exception the
  source can raise is a value \<open>Inl e\<close> of a sum type.
\<close>

subsection \<open>Values, documents and exceptions\<close>

text \<open>
  A field of a stored document is \<^verbatim>\<open>None\<close>, a number or a string. Python compares
  \<^verbatim>\<open>True\<close>, \<^verbatim>\<open>1\<close> and \<^verbatim>\<open>1.0\<close> as equal (also as dictionary keys) and \<^verbatim>\<open>float()\<close>
  maps them to the same number, so one constructor \<open>PNum\<close> stands for bool, int and float.
\<close>

datatype pyval = PNone | PNum rat | PStr string

text \<open>A document is a Python \<^verbatim>\<open>Dict[str, Any]\<close>.\<close>

type_synonym document = "string \<rightharpoonup> pyval"

datatype py_error =
    TypeError
  | ValueError
  | ZeroDivisionError
  | StoreError
  | HTTPException nat

text \<open>\<^verbatim>\<open>a.get(key, default)\<close>\<close>

definition dict_get :: "document \<Rightarrow> string \<Rightarrow> pyval \<Rightarrow> pyval" where
  "dict_get a k d = (case a k of None \<Rightarrow> d | Some v \<Rightarrow> v)"

text \<open>
  The built-in \<^verbatim>\<open>float(v)\<close>: \<^verbatim>\<open>TypeError\<close> on \<^verbatim>\<open>None\<close>, the number itself on a number,
  and on a string the parsed literal or \<^verbatim>\<open>ValueError\<close>. The literal grammar of the
  built-in is a parameter \<open>lit\<close> of the model (\<open>lit s = None\<close> when \<open>s\<close> is no numeric
  literal).
\<close>

fun py_float :: "(string \<Rightarrow> rat option) \<Rightarrow> pyval \<Rightarrow> py_error + rat" where
  "py_float lit PNone = Inl TypeError"
| "py_float lit (PNum r) = Inr r"
| "py_float lit (PStr s) = (case lit s of None \<Rightarrow> Inl ValueError | Some r \<Rightarrow> Inr r)"

text \<open>\<^verbatim>\<open>x / y\<close> on floats raises \<^verbatim>\<open>ZeroDivisionError\<close> when \<^verbatim>\<open>y\<close> is zero.\<close>

definition py_div :: "rat \<Rightarrow> rat \<Rightarrow> py_error + rat" where
  "py_div x y = (if y = 0 then Inl ZeroDivisionError else Inr (x / y))"

text \<open>\<^verbatim>\<open>x or 1\<close> on a float: a zero is falsy.\<close>

definition or_one :: "rat \<Rightarrow> rat" where
  "or_one t = (if t = 0 then 1 else t)"

text \<open>
  \<^verbatim>\<open>round(x, 2)\<close>: the nearest multiple of \<open>1/100\<close>, a tie going to the even one
  (Python rounds half to even).
\<close>

definition round_half_even :: "rat \<Rightarrow> int" where
  "round_half_even y =
     (let f = \<lfloor>y\<rfloor>; d = y - of_int f in
      if d < 1 / 2 then f
      else if 1 / 2 < d then f + 1
      else if even f then f else f + 1)"

definition py_round2 :: "rat \<Rightarrow> rat" where
  "py_round2 x = of_int (round_half_even (x * 100)) / 100"

subsection \<open>compute_stats\<close>

text \<open>
  Lines 76 to 78 of the loop body: the percentage of one assessment.
  \<^verbatim>\<open>
      score = float(a.get("score", 0))
      total = float(a.get("total", 0)) or 1
      pct = (score / total) * 100.0
  \<close>
\<close>

definition percentage :: "(string \<Rightarrow> rat option) \<Rightarrow> document \<Rightarrow> py_error + rat" where
  "percentage lit a =
     (case py_float lit (dict_get a ''score'' (PNum 0)) of
        Inl e \<Rightarrow> Inl e
      | Inr score \<Rightarrow>
          (case py_float lit (dict_get a ''total'' (PNum 0)) of
             Inl e \<Rightarrow> Inl e
           | Inr t \<Rightarrow>
               (case py_div score (or_one t) of
                  Inl e \<Rightarrow> Inl e
                | Inr q \<Rightarrow> Inr (q * 100))))"

text \<open>\<^verbatim>\<open>subject = a.get("subject", "Unknown")\<close>\<close>

definition subject_of :: "document \<Rightarrow> pyval" where
  "subject_of a = dict_get a ''subject'' (PStr ''Unknown'')"

text \<open>
  \<^verbatim>\<open>subject_scores.setdefault(subject, []).append(pct)\<close> on a dictionary kept as an
  association list in insertion order (the order Python iterates a dict in): an
  existing key keeps its place and its list grows, a new key goes to the end.
\<close>

fun setdefault_append :: "('k \<times> rat list) list \<Rightarrow> 'k \<Rightarrow> rat \<Rightarrow> ('k \<times> rat list) list" where
  "setdefault_append [] k p = [(k, [p])]"
| "setdefault_append ((k', v) # kvs) k p =
     (if k' = k then (k', v @ [p]) # kvs else (k', v) # setdefault_append kvs k p)"

text \<open>The \<^verbatim>\<open>for a in assessments\<close> loop on the pair (subject_scores, overall_scores).\<close>

fun stats_loop ::
  "(string \<Rightarrow> rat option) \<Rightarrow> document list \<Rightarrow> (pyval \<times> rat list) list \<times> rat list
     \<Rightarrow> py_error + ((pyval \<times> rat list) list \<times> rat list)" where
  "stats_loop lit [] st = Inr st"
| "stats_loop lit (a # as) (subject_scores, overall_scores) =
     (case percentage lit a of
        Inl e \<Rightarrow> Inl e
      | Inr pct \<Rightarrow>
          stats_loop lit as
            (setdefault_append subject_scores (subject_of a) pct, overall_scores @ [pct]))"

text \<open>\<^verbatim>\<open>sum(v)/len(v)\<close>\<close>

definition mean :: "rat list \<Rightarrow> py_error + rat" where
  "mean v = py_div (sum_list v) (of_nat (length v))"

text \<open>
  \<^verbatim>\<open>{s: sum(v)/len(v) for s, v in subject_scores.items()}\<close>: the comprehension stops at
  the first exception.
\<close>

fun subject_means :: "('k \<times> rat list) list \<Rightarrow> py_error + ('k \<times> rat) list" where
  "subject_means [] = Inr []"
| "subject_means ((s, v) # kvs) =
     (case mean v of
        Inl e \<Rightarrow> Inl e
      | Inr m \<Rightarrow> (case subject_means kvs of Inl e \<Rightarrow> Inl e | Inr ms \<Rightarrow> Inr ((s, m) # ms)))"

text \<open>
  \<^verbatim>\<open>max(per_subject, key=per_subject.get)\<close> and \<^verbatim>\<open>min(...)\<close>: the keys are visited in
  the dictionary's order and the candidate changes only on a strictly greater (smaller)
  key value, so the first extremal key wins. A key's value is the one stored beside it.
\<close>

fun max_from :: "'k \<times> rat \<Rightarrow> ('k \<times> rat) list \<Rightarrow> 'k \<times> rat" where
  "max_from best [] = best"
| "max_from best (x # xs) = max_from (if snd best < snd x then x else best) xs"

fun min_from :: "'k \<times> rat \<Rightarrow> ('k \<times> rat) list \<Rightarrow> 'k \<times> rat" where
  "min_from best [] = best"
| "min_from best (x # xs) = min_from (if snd x < snd best then x else best) xs"

definition max_key :: "('k \<times> rat) list \<Rightarrow> 'k option" where
  "max_key per_subject =
     (case per_subject of [] \<Rightarrow> None | x # xs \<Rightarrow> Some (fst (max_from x xs)))"

definition min_key :: "('k \<times> rat) list \<Rightarrow> 'k option" where
  "min_key per_subject =
     (case per_subject of [] \<Rightarrow> None | x # xs \<Rightarrow> Some (fst (min_from x xs)))"

record stats =
  overall_average :: rat
  per_subject_average :: "(pyval \<times> rat) list"
  best_subject :: "pyval option"
  worst_subject :: "pyval option"
  assessments_count :: nat

definition compute_stats ::
  "(string \<Rightarrow> rat option) \<Rightarrow> document list \<Rightarrow> py_error + stats" where
  "compute_stats lit assessments =
     (case stats_loop lit assessments ([], []) of
        Inl e \<Rightarrow> Inl e
      | Inr (subject_scores, overall_scores) \<Rightarrow>
          (case (if subject_scores \<noteq> [] then subject_means subject_scores else Inr []) of
             Inl e \<Rightarrow> Inl e
           | Inr per_subject \<Rightarrow>
               (case (if overall_scores \<noteq> [] then mean overall_scores else Inr 0) of
                  Inl e \<Rightarrow> Inl e
                | Inr overall_avg \<Rightarrow>
                    Inr \<lparr> overall_average = py_round2 overall_avg,
                          per_subject_average = map (\<lambda>(k, v). (k, py_round2 v)) per_subject,
                          best_subject = (if per_subject \<noteq> [] then max_key per_subject else None),
                          worst_subject = (if per_subject \<noteq> [] then min_key per_subject else None),
                          assessments_count = length assessments \<rparr>)))"

subsection \<open>Identifiers and the document store\<close>

text \<open>
  An \<^verbatim>\<open>ObjectId\<close> is a 12-byte value, kept as the natural number it encodes. The
  constructor \<^verbatim>\<open>bson.ObjectId\<close> belongs to a library; the routes take it as a parameter
  \<open>oid\<close>, where \<open>oid v = None\<close> means that \<^verbatim>\<open>ObjectId(v)\<close> raises.
\<close>

type_synonym object_id = nat

text \<open>
  \<^verbatim>\<open>
  def to_object_id(id_str: str) -> ObjectId:
      try:
          return ObjectId(id_str)
      except Exception:
          raise HTTPException(status_code=400, detail="Invalid ID format")
  \<close>
\<close>

definition to_object_id :: "(pyval \<Rightarrow> object_id option) \<Rightarrow> pyval \<Rightarrow> py_error + object_id" where
  "to_object_id oid id_str =
     (case oid id_str of None \<Rightarrow> Inl (HTTPException 400) | Some i \<Rightarrow> Inr i)"

text \<open>
  A constructor for the examples: a string of 24 hexadecimal digits is the identifier
  it spells, \<^verbatim>\<open>None\<close> gives a generated identifier (here 0), anything else raises.
\<close>

definition hex_digit :: "char \<Rightarrow> nat option" where
  "hex_digit c =
     (if c \<in> set ''0123456789'' then Some (of_char c - 48)
      else if c \<in> set ''abcdef'' then Some (of_char c - 87)
      else if c \<in> set ''ABCDEF'' then Some (of_char c - 55)
      else None)"

fun hex_value :: "nat \<Rightarrow> string \<Rightarrow> nat option" where
  "hex_value acc [] = Some acc"
| "hex_value acc (c # cs) =
     (case hex_digit c of None \<Rightarrow> None | Some d \<Rightarrow> hex_value (16 * acc + d) cs)"

fun hex_object_id :: "pyval \<Rightarrow> object_id option" where
  "hex_object_id (PStr s) = (if length s = 24 then hex_value 0 s else None)"
| "hex_object_id PNone = Some 0"
| "hex_object_id (PNum r) = None"

text \<open>
  Modelled from the spec: the document store adapter (\<^verbatim>\<open>database.py\<close>: \<^verbatim>\<open>db\<close>,
  \<^verbatim>\<open>create_document\<close>, \<^verbatim>\<open>get_documents\<close>), which the spec describes as
  \<^verbatim>\<open>create_document(collection, record) -> id\<close> and
  \<^verbatim>\<open>get_documents(collection, filter?) -> list of records\<close>, with identities assigned by
  the store. The two collections are lists of identified documents. Any call to the
  store may fail: \<open>fault c\<close> tells whether the call \<open>c\<close> raises.
\<close>

record store =
  student :: "(object_id \<times> document) list"
  assessment :: "(object_id \<times> document) list"

datatype db_call = FindOne object_id | GetDocuments | Aggregate | CreateDocument

text \<open>\<^verbatim>\<open>db["student"].find_one({"_id": i})\<close>\<close>

definition find_one ::
  "(db_call \<Rightarrow> bool) \<Rightarrow> store \<Rightarrow> object_id \<Rightarrow> py_error + document option" where
  "find_one fault db i =
     (if fault (FindOne i) then Inl StoreError else Inr (map_of (student db) i))"

text \<open>\<^verbatim>\<open>get_documents("assessment")\<close>\<close>

definition get_documents :: "(db_call \<Rightarrow> bool) \<Rightarrow> store \<Rightarrow> py_error + document list" where
  "get_documents fault db =
     (if fault GetDocuments then Inl StoreError else Inr (map snd (assessment db)))"

definition fresh_id :: "store \<Rightarrow> object_id" where
  "fresh_id db = Suc (fold max (map fst (student db) @ map fst (assessment db)) 0)"

text \<open>\<^verbatim>\<open>create_document("assessment", record)\<close>: the new identifier and the new store.\<close>

definition create_document ::
  "(db_call \<Rightarrow> bool) \<Rightarrow> store \<Rightarrow> document \<Rightarrow> (py_error + object_id) \<times> store" where
  "create_document fault db d =
     (if fault CreateDocument then (Inl StoreError, db)
      else (Inr (fresh_id db), db\<lparr>assessment := assessment db @ [(fresh_id db, d)]\<rparr>))"

subsection \<open>create_assessment\<close>

text \<open>The request body, as \<^verbatim>\<open>schemas.Assessment\<close> declares it.\<close>

record assessment_create =
  student_id :: string
  subject :: string
  score :: rat
  total :: rat
  assessment_date :: "string option"
  assessment_type :: "string option"

definition model_dump :: "assessment_create \<Rightarrow> document" where
  "model_dump a =
     [''student_id'' \<mapsto> PStr (student_id a),
      ''subject'' \<mapsto> PStr (subject a),
      ''score'' \<mapsto> PNum (score a),
      ''total'' \<mapsto> PNum (total a),
      ''assessment_date'' \<mapsto> (case assessment_date a of None \<Rightarrow> PNone | Some d \<Rightarrow> PStr d),
      ''assessment_type'' \<mapsto> (case assessment_type a of None \<Rightarrow> PNone | Some t \<Rightarrow> PStr t)]"

text \<open>
  Lines 115 to 118: every exception of the lookup, the \<^verbatim>\<open>HTTPException\<close> of
  \<^verbatim>\<open>to_object_id\<close> included (it is an \<^verbatim>\<open>Exception\<close>), is caught and leaves \<^verbatim>\<open>doc = None\<close>.
  \<^verbatim>\<open>
      try:
          doc = db["student"].find_one({"_id": to_object_id(sid)})
      except Exception:
          doc = None
  \<close>
\<close>

definition lookup_student ::
  "(db_call \<Rightarrow> bool) \<Rightarrow> (pyval \<Rightarrow> object_id option) \<Rightarrow> store \<Rightarrow> string \<Rightarrow> document option" where
  "lookup_student fault oid db sid =
     (case to_object_id oid (PStr sid) of
        Inl e \<Rightarrow> None
      | Inr i \<Rightarrow> (case find_one fault db i of Inl e \<Rightarrow> None | Inr doc \<Rightarrow> doc))"

text \<open>
  Lines 119 to 122. A document that \<^verbatim>\<open>find_one\<close> returns has its \<^verbatim>\<open>_id\<close> field, so
  \<^verbatim>\<open>not doc\<close> holds exactly when \<^verbatim>\<open>doc\<close> is \<^verbatim>\<open>None\<close>.
\<close>

definition create_assessment ::
  "(db_call \<Rightarrow> bool) \<Rightarrow> (pyval \<Rightarrow> object_id option) \<Rightarrow> store \<Rightarrow> assessment_create
     \<Rightarrow> (py_error + object_id) \<times> store" where
  "create_assessment fault oid db a =
     (case lookup_student fault oid db (student_id a) of
        None \<Rightarrow> (Inl (HTTPException 404), db)
      | Some doc \<Rightarrow> create_document fault db (model_dump a))"

subsection \<open>overall_overview\<close>

text \<open>
  The aggregation pipeline of lines 146 to 152 is run by the database; its four stages
  are modelled as the database documents them. A value of the pipeline is a number or
  null (\<open>None\<close>); a missing field reads as null. In the database's order null is below
  every number and every number is below every string.
\<close>

text \<open>\<^verbatim>\<open>{"$cond": [{"$gt": ["$total", 0]}, "$total", 1]}\<close>\<close>

definition cond_total :: "document \<Rightarrow> pyval" where
  "cond_total a =
     (case a ''total'' of
        None \<Rightarrow> PNum 1
      | Some PNone \<Rightarrow> PNum 1
      | Some (PNum t) \<Rightarrow> (if 0 < t then PNum t else PNum 1)
      | Some (PStr s) \<Rightarrow> PStr s)"

text \<open>
  \<^verbatim>\<open>$divide\<close>: the quotient of two numbers (an error on a zero divisor); otherwise
  null when an operand is null, and an error when none is.
\<close>

definition mongo_divide :: "pyval \<Rightarrow> pyval \<Rightarrow> py_error + rat option" where
  "mongo_divide x y =
     (case (x, y) of
        (PNum a, PNum b) \<Rightarrow> (if b = 0 then Inl StoreError else Inr (Some (a / b)))
      | (PNone, _) \<Rightarrow> Inr None
      | (_, PNone) \<Rightarrow> Inr None
      | _ \<Rightarrow> Inl StoreError)"

text \<open>\<^verbatim>\<open>{"$addFields": {"pct": {"$multiply": [{"$divide": ["$score", ...]}, 100]}}}\<close>\<close>

definition add_pct :: "document \<Rightarrow> py_error + rat option" where
  "add_pct a =
     (case mongo_divide (dict_get a ''score'' PNone) (cond_total a) of
        Inl e \<Rightarrow> Inl e
      | Inr None \<Rightarrow> Inr None
      | Inr (Some q) \<Rightarrow> Inr (Some (q * 100)))"

record group_row =
  row_id :: pyval
  avgPct :: "rat option"
  count :: nat

text \<open>
  \<^verbatim>\<open>{"$group": {"_id": "$student_id", "avgPct": {"$avg": "$pct"}, "count": {"$sum": 1}}}\<close>:
  a group collects the \<^verbatim>\<open>pct\<close> values of its documents; \<^verbatim>\<open>$avg\<close> skips the nulls and is
  null when nothing is left.
\<close>

fun group_insert ::
  "(pyval \<times> rat option list) list \<Rightarrow> pyval \<Rightarrow> rat option \<Rightarrow> (pyval \<times> rat option list) list" where
  "group_insert [] k p = [(k, [p])]"
| "group_insert ((k', v) # kvs) k p =
     (if k' = k then (k', v @ [p]) # kvs else (k', v) # group_insert kvs k p)"

fun group_stage ::
  "(pyval \<times> rat option list) list \<Rightarrow> document list \<Rightarrow> py_error + (pyval \<times> rat option list) list" where
  "group_stage groups [] = Inr groups"
| "group_stage groups (a # as) =
     (case add_pct a of
        Inl e \<Rightarrow> Inl e
      | Inr p \<Rightarrow> group_stage (group_insert groups (dict_get a ''student_id'' PNone) p) as)"

definition mongo_avg :: "rat option list \<Rightarrow> rat option" where
  "mongo_avg ps =
     (let nums = concat (map (\<lambda>p. case p of None \<Rightarrow> [] | Some r \<Rightarrow> [r]) ps) in
      if nums = [] then None else Some (sum_list nums / of_nat (length nums)))"

definition make_row :: "pyval \<times> rat option list \<Rightarrow> group_row" where
  "make_row g = \<lparr> row_id = fst g, avgPct = mongo_avg (snd g), count = length (snd g) \<rparr>"

text \<open>\<^verbatim>\<open>{"$sort": {"avgPct": -1}}\<close>: descending, null last.\<close>

fun avg_le :: "rat option \<Rightarrow> rat option \<Rightarrow> bool" where
  "avg_le None y = True"
| "avg_le (Some x) None = False"
| "avg_le (Some x) (Some y) = (x \<le> y)"

fun insert_desc :: "group_row \<Rightarrow> group_row list \<Rightarrow> group_row list" where
  "insert_desc r [] = [r]"
| "insert_desc r (x # xs) =
     (if avg_le (avgPct r) (avgPct x) then x # insert_desc r xs else r # x # xs)"

fun sort_desc :: "group_row list \<Rightarrow> group_row list" where
  "sort_desc [] = []"
| "sort_desc (r # rs) = insert_desc r (sort_desc rs)"

text \<open>\<^verbatim>\<open>list(db["assessment"].aggregate(pipeline))\<close>, the last stage being \<^verbatim>\<open>{"$limit": 5}\<close>.\<close>

definition aggregate :: "(db_call \<Rightarrow> bool) \<Rightarrow> store \<Rightarrow> py_error + group_row list" where
  "aggregate fault db =
     (if fault Aggregate then Inl StoreError
      else (case group_stage [] (map snd (assessment db)) of
              Inl e \<Rightarrow> Inl e
            | Inr groups \<Rightarrow> Inr (take 5 (sort_desc (map make_row groups)))))"

record top_student =
  top_student_id :: pyval
  top_avgPct :: "rat option"
  top_count :: nat
  student_name :: pyval

text \<open>
  The loop of lines 155 to 159; an exception leaves it at once.
  \<^verbatim>\<open>
      for t in top:
          t["student_id"] = t.pop("_id")
          sdoc = db["student"].find_one({"_id": to_object_id(t["student_id"])})
          t["student_name"] = sdoc.get("name") if sdoc else None
  \<close>
\<close>

fun attach_names ::
  "(db_call \<Rightarrow> bool) \<Rightarrow> (pyval \<Rightarrow> object_id option) \<Rightarrow> store \<Rightarrow> group_row list
     \<Rightarrow> py_error + top_student list" where
  "attach_names fault oid db [] = Inr []"
| "attach_names fault oid db (t # ts) =
     (case to_object_id oid (row_id t) of
        Inl e \<Rightarrow> Inl e
      | Inr i \<Rightarrow>
          (case find_one fault db i of
             Inl e \<Rightarrow> Inl e
           | Inr sdoc \<Rightarrow>
               (case attach_names fault oid db ts of
                  Inl e \<Rightarrow> Inl e
                | Inr ts' \<Rightarrow>
                    Inr (\<lparr> top_student_id = row_id t, top_avgPct = avgPct t, top_count = count t,
                           student_name = (case sdoc of None \<Rightarrow> PNone
                                           | Some d \<Rightarrow> dict_get d ''name'' PNone) \<rparr> # ts'))))"

text \<open>Lines 153 to 161: \<^verbatim>\<open>try: ... except Exception: top = []\<close>\<close>

definition top_students_of ::
  "(db_call \<Rightarrow> bool) \<Rightarrow> (pyval \<Rightarrow> object_id option) \<Rightarrow> store \<Rightarrow> top_student list" where
  "top_students_of fault oid db =
     (case aggregate fault db of
        Inl e \<Rightarrow> []
      | Inr rows \<Rightarrow> (case attach_names fault oid db rows of Inl e \<Rightarrow> [] | Inr ts \<Rightarrow> ts))"

record overview = stats +
  top_students :: "top_student list"

text \<open>\<^verbatim>\<open>stats["top_students"] = top\<close>\<close>

definition with_top_students :: "stats \<Rightarrow> top_student list \<Rightarrow> overview" where
  "with_top_students st top_list =
     \<lparr> overall_average = overall_average st,
       per_subject_average = per_subject_average st,
       best_subject = best_subject st,
       worst_subject = worst_subject st,
       assessments_count = assessments_count st,
       top_students = top_list \<rparr>"

definition overall_overview ::
  "(string \<Rightarrow> rat option) \<Rightarrow> (db_call \<Rightarrow> bool) \<Rightarrow> (pyval \<Rightarrow> object_id option) \<Rightarrow> store
     \<Rightarrow> py_error + overview" where
  "overall_overview lit fault oid db =
     (case get_documents fault db of
        Inl e \<Rightarrow> Inl e
      | Inr assessments \<Rightarrow>
          (case compute_stats lit assessments of
             Inl e \<Rightarrow> Inl e
           | Inr stats \<Rightarrow>
               Inr (with_top_students stats (top_students_of fault oid db))))"

subsection \<open>Notions of the specification\<close>

text \<open>
  The percentages of a list of assessments, in order, or the first exception: what the
  loop of \<open>compute_stats\<close> appends to \<^verbatim>\<open>overall_scores\<close>.
\<close>

fun percentages :: "(string \<Rightarrow> rat option) \<Rightarrow> document list \<Rightarrow> py_error + rat list" where
  "percentages lit [] = Inr []"
| "percentages lit (a # as) =
     (case percentage lit a of
        Inl e \<Rightarrow> Inl e
      | Inr p \<Rightarrow> (case percentages lit as of Inl e \<Rightarrow> Inl e | Inr ps \<Rightarrow> Inr (p # ps)))"

text \<open>The dictionary \<^verbatim>\<open>subject_scores\<close> after the keyed values \<open>kps\<close> went in, one by one.\<close>

fun group_all :: "('k \<times> rat list) list \<Rightarrow> ('k \<times> rat) list \<Rightarrow> ('k \<times> rat list) list" where
  "group_all kvs [] = kvs"
| "group_all kvs ((k, p) # kps) = group_all (setdefault_append kvs k p) kps"

text \<open>The list stored under a key of an association list, empty for a missing key.\<close>

definition lookup_list :: "('k \<times> 'v list) list \<Rightarrow> 'k \<Rightarrow> 'v list" where
  "lookup_list kvs k = (case map_of kvs k of None \<Rightarrow> [] | Some v \<Rightarrow> v)"

text \<open>The arithmetic mean of a list.\<close>

definition arith_mean :: "rat list \<Rightarrow> rat" where
  "arith_mean v = sum_list v / of_nat (length v)"

text \<open>The dictionary \<^verbatim>\<open>per_subject\<close> (the means before rounding) for percentages \<open>ps\<close>.\<close>

definition per_subject_raw :: "document list \<Rightarrow> rat list \<Rightarrow> (pyval \<times> rat) list" where
  "per_subject_raw as ps =
     map (\<lambda>(k, v). (k, arith_mean v)) (group_all [] (zip (map subject_of as) ps))"

text \<open>
  The spec's effective total: the total, unless the total is zero, in which case 1.
\<close>

definition effective_total :: "rat \<Rightarrow> rat" where
  "effective_total t = (if t = 0 then 1 else t)"


text \<open>The assessment \<^verbatim>\<open>{"score": sc, "total": tot, "subject": subj}\<close> of the examples.\<close>

definition doc :: "rat \<Rightarrow> rat \<Rightarrow> string \<Rightarrow> document" where
  "doc sc tot subj = [''score'' \<mapsto> PNum sc, ''total'' \<mapsto> PNum tot, ''subject'' \<mapsto> PStr subj]"

text \<open>
  Non-increasing order of the mean percentage, null last: \<open>avg_ge x y\<close> when \<open>x\<close> is at
  least \<open>y\<close>.
\<close>

definition avg_ge :: "rat option \<Rightarrow> rat option \<Rightarrow> bool" where
  "avg_ge x y = avg_le y x"

text \<open>
  The \<^verbatim>\<open>pct\<close> values of the documents of one student, as the \<^verbatim>\<open>$group\<close> stage collects
  them.
\<close>

definition student_pcts :: "pyval \<Rightarrow> document list \<Rightarrow> rat option list" where
  "student_pcts k docs =
     concat (map (\<lambda>a. case add_pct a of Inl e \<Rightarrow> [] | Inr p \<Rightarrow> [p])
       (filter (\<lambda>a. dict_get a ''student_id'' PNone = k) docs))"

subsection \<open>Examples for the routes\<close>

text \<open>
  A store with two students and one assessment, for the examples.
\<close>

definition sample_db :: store where
  "sample_db =
     \<lparr> student = [(1, [''name'' \<mapsto> PStr ''Ada'']), (2, [''name'' \<mapsto> PStr ''Alan''])],
       assessment = [(3, [''student_id'' \<mapsto> PStr ''000000000000000000000001'',
                           ''subject'' \<mapsto> PStr ''Math'', ''score'' \<mapsto> PNum 50,
                           ''total'' \<mapsto> PNum 100])] \<rparr>"

text \<open>
  A create-assessment request for the student identifier \<open>sid\<close>.
\<close>

definition request :: "string \<Rightarrow> assessment_create" where
  "request sid =
     \<lparr> student_id = sid, subject = ''Math'', score = 80, total = 100,
       assessment_date = None, assessment_type = None \<rparr>"

text \<open>
  The stored assessment of student \<open>sid\<close> with the given score, total and subject.
\<close>

definition entry :: "string \<Rightarrow> rat \<Rightarrow> rat \<Rightarrow> string \<Rightarrow> document" where
  "entry sid sc tot subj =
     [''student_id'' \<mapsto> PStr sid, ''subject'' \<mapsto> PStr subj, ''score'' \<mapsto> PNum sc,
      ''total'' \<mapsto> PNum tot]"

text \<open>
  A store with six students (the sixth has no name field) and seven assessments.
\<close>

definition board_db :: store where
  "board_db =
     \<lparr> student =
         [(1, [''name'' \<mapsto> PStr ''Ada'']), (2, [''name'' \<mapsto> PStr ''Alan'']),
          (3, [''name'' \<mapsto> PStr ''Grace'']), (4, [''name'' \<mapsto> PStr ''Edsger'']),
          (5, [''name'' \<mapsto> PStr ''Barbara'']), (6, [''email'' \<mapsto> PStr ''tony@example.org''])],
       assessment =
         [(11, entry ''000000000000000000000001'' 90 100 ''Math''),
          (12, entry ''000000000000000000000002'' 50 100 ''Math''),
          (13, entry ''000000000000000000000003'' 100 100 ''Science''),
          (14, entry ''000000000000000000000004'' 30 0 ''Math''),
          (15, entry ''000000000000000000000005'' 20 100 ''Science''),
          (16, entry ''000000000000000000000006'' 60 100 ''Math''),
          (17, entry ''000000000000000000000001'' 70 100 ''Science'')] \<rparr>"

text \<open>
  A store in which one assessment carries a student identifier that is no ObjectId.
\<close>

definition bad_db :: store where
  "bad_db =
     \<lparr> student = [(1, [''name'' \<mapsto> PStr ''Ada''])],
       assessment =
         [(11, entry ''000000000000000000000001'' 90 100 ''Math''),
          (12, entry ''not-an-object-id'' 50 100 ''Math'')] \<rparr>"

subsection \<open>Lemmas on the statistics engine\<close>

lemma py_div_or_one: "py_div x (or_one t) = Inr (x / or_one t)"
  by (simp add: py_div_def or_one_def)

lemma py_float_not_zero_division: "py_float lit v \<noteq> Inl ZeroDivisionError"
  by (cases v) (simp_all split: option.splits)

lemma percentage_not_zero_division: "percentage lit a \<noteq> Inl ZeroDivisionError"
proof (cases "py_float lit (dict_get a ''score'' (PNum 0))")
  case (Inl e)
  then have "e \<noteq> ZeroDivisionError"
    using py_float_not_zero_division [of lit "dict_get a ''score'' (PNum 0)"] by simp
  with Inl show ?thesis by (simp add: percentage_def)
next
  case sc: (Inr sc)
  show ?thesis
  proof (cases "py_float lit (dict_get a ''total'' (PNum 0))")
    case (Inl e)
    then have "e \<noteq> ZeroDivisionError"
      using py_float_not_zero_division [of lit "dict_get a ''total'' (PNum 0)"] by simp
    with Inl sc show ?thesis by (simp add: percentage_def)
  next
    case (Inr t)
    with sc show ?thesis by (simp add: percentage_def py_div_or_one)
  qed
qed

lemma percentages_length: "percentages lit as = Inr ps \<Longrightarrow> length ps = length as"
proof (induction as arbitrary: ps)
  case Nil
  then show ?case by simp
next
  case (Cons a as)
  then show ?case by (simp split: sum.splits) auto
qed

lemma stats_loop_eq:
  "stats_loop lit as (ss, os) =
     (case percentages lit as of
        Inl e \<Rightarrow> Inl e
      | Inr ps \<Rightarrow> Inr (group_all ss (zip (map subject_of as) ps), os @ ps))"
proof (induction as arbitrary: ss os)
  case Nil
  show ?case by simp
next
  case (Cons a as)
  show ?case
  proof (cases "percentage lit a")
    case (Inl e)
    then show ?thesis by simp
  next
    case (Inr p)
    then show ?thesis
      by (cases "percentages lit as") (simp_all add: Cons.IH)
  qed
qed





lemma nonempty_setdefault_append:
  "\<forall>(k, v)\<in>set kvs. v \<noteq> [] \<Longrightarrow> \<forall>(k', v)\<in>set (setdefault_append kvs k p). v \<noteq> []"
  by (induction kvs k p rule: setdefault_append.induct) (auto split: if_splits)

lemma setdefault_append_not_Nil: "setdefault_append kvs k p \<noteq> []"
  by (induction kvs k p rule: setdefault_append.induct) (auto split: if_splits)




lemma nonempty_group_all:
  "\<forall>(k, v)\<in>set kvs. v \<noteq> [] \<Longrightarrow> \<forall>(k, v)\<in>set (group_all kvs kps). v \<noteq> []"
proof (induction kps arbitrary: kvs)
  case Nil
  then show ?case by simp
next
  case (Cons kp kps)
  obtain k p where kp: "kp = (k, p)" by (cases kp)
  show ?case
    unfolding kp group_all.simps
    by (rule Cons.IH) (rule nonempty_setdefault_append [OF Cons.prems])
qed

lemma group_all_Nil_iff: "group_all kvs kps = [] \<longleftrightarrow> kvs = [] \<and> kps = []"
proof (induction kps arbitrary: kvs)
  case Nil
  show ?case by simp
next
  case (Cons kp kps)
  obtain k p where kp: "kp = (k, p)" by (cases kp)
  show ?case
    unfolding kp group_all.simps Cons.IH
    by (simp add: setdefault_append_not_Nil)
qed

lemma mean_eq: "v \<noteq> [] \<Longrightarrow> mean v = Inr (arith_mean v)"
  by (simp add: mean_def py_div_def arith_mean_def)

lemma subject_means_eq:
  "\<forall>(k, v)\<in>set kvs. v \<noteq> [] \<Longrightarrow>
   subject_means kvs = Inr (map (\<lambda>(k, v). (k, arith_mean v)) kvs)"
proof (induction kvs)
  case Nil
  show ?case by simp
next
  case (Cons kv kvs)
  obtain k v where kv: "kv = (k, v)" by (cases kv)
  from Cons.prems have v: "v \<noteq> []" and rest: "\<forall>(k, v)\<in>set kvs. v \<noteq> []"
    by (auto simp: kv)
  show ?case
    by (simp add: kv mean_eq [OF v] Cons.IH [OF rest])
qed












lemma py_round2_zero: "py_round2 0 = 0"
  by (simp add: py_round2_def round_half_even_def)

lemma max_key_Nil: "max_key [] = None"
  by (simp add: max_key_def)

lemma min_key_Nil: "min_key [] = None"
  by (simp add: min_key_def)

lemma percentages_iff: "percentages lit as = Inr ps \<longleftrightarrow> map (percentage lit) as = map Inr ps"
proof (induction as arbitrary: ps)
  case Nil
  show ?case by auto
next
  case (Cons a as)
  show ?case
  proof (cases "percentage lit a")
    case (Inl e)
    then show ?thesis by (cases ps) auto
  next
    case (Inr p)
    show ?thesis
    proof (cases "percentages lit as")
      case (Inl e)
      with Cons.IH have "map (percentage lit) as \<noteq> map Inr qs" for qs by simp
      with Inl Inr show ?thesis by (cases ps) auto
    next
      case rest: (Inr qs)
      with Cons.IH Inr show ?thesis by (cases ps) auto
    qed
  qed
qed

lemma compute_stats_error:
  "percentages lit as = Inl e \<Longrightarrow> compute_stats lit as = Inl e"
  by (simp add: compute_stats_def stats_loop_eq)

lemma compute_stats_value:
  assumes "percentages lit as = Inr ps"
  shows "compute_stats lit as =
     Inr \<lparr> overall_average = (if as = [] then 0 else py_round2 (arith_mean ps)),
           per_subject_average = map (\<lambda>(k, v). (k, py_round2 v)) (per_subject_raw as ps),
           best_subject = max_key (per_subject_raw as ps),
           worst_subject = min_key (per_subject_raw as ps),
           assessments_count = length as \<rparr>"
proof -
  let ?G = "group_all [] (zip (map subject_of as) ps)"
  have len: "length ps = length as" using assms by (rule percentages_length)
  have loop: "stats_loop lit as ([], []) = Inr (?G, ps)"
    by (simp add: stats_loop_eq assms)
  have "\<forall>(k, v)\<in>set ?G. v \<noteq> []" by (rule nonempty_group_all) simp
  then have means: "subject_means ?G = Inr (per_subject_raw as ps)"
    unfolding per_subject_raw_def by (rule subject_means_eq)
  have G_Nil: "?G = [] \<longleftrightarrow> as = []"
    using len by (cases as; cases ps) (simp_all add: group_all_Nil_iff)
  have ps_Nil: "ps = [] \<longleftrightarrow> as = []" using len by (cases as; cases ps) simp_all
  show ?thesis
  proof (cases "as = []")
    case True
    with assms show ?thesis
      by (simp add: compute_stats_def per_subject_raw_def max_key_Nil min_key_Nil py_round2_zero)
  next
    case False
    then have "?G \<noteq> []" "ps \<noteq> []" using G_Nil ps_Nil by simp_all
    moreover from this have "per_subject_raw as ps \<noteq> []" by (simp add: per_subject_raw_def)
    ultimately show ?thesis
      using False by (simp add: compute_stats_def loop means mean_eq)
  qed
qed

lemma compute_stats_not_zero_division: "compute_stats lit as \<noteq> Inl ZeroDivisionError"
proof (cases "percentages lit as")
  case (Inl e)
  have "percentages lit bs \<noteq> Inl ZeroDivisionError" for bs
  proof (induction bs)
    case Nil
    show ?case by simp
  next
    case (Cons b bs)
    then show ?case
      using percentage_not_zero_division [of lit b] by (auto split: sum.splits)
  qed
  with Inl show ?thesis by (simp add: compute_stats_error [OF Inl]) metis
next
  case (Inr ps)
  then show ?thesis by (simp add: compute_stats_value)
qed

lemma percentage_value:
  assumes "py_float lit (dict_get a ''score'' (PNum 0)) = Inr sc"
    and "py_float lit (dict_get a ''total'' (PNum 0)) = Inr tot"
  shows "percentage lit a = Inr (sc / or_one tot * 100)"
  using assms by (simp add: percentage_def py_div_or_one)

lemma doc_fields:
  "dict_get (doc sc tot subj) ''score'' d = PNum sc"
  "dict_get (doc sc tot subj) ''total'' d = PNum tot"
  "subject_of (doc sc tot subj) = PStr subj"
  by (simp_all add: doc_def dict_get_def subject_of_def)

lemma percentage_doc: "percentage lit (doc sc tot subj) = Inr (sc / or_one tot * 100)"
  by (rule percentage_value) (simp_all add: doc_fields)

lemma compute_stats_success:
  assumes "map (percentage lit) as = map Inr ps"
  shows "compute_stats lit as =
     Inr \<lparr> overall_average = (if as = [] then 0 else py_round2 (arith_mean ps)),
           per_subject_average = map (\<lambda>(k, v). (k, py_round2 v)) (per_subject_raw as ps),
           best_subject = max_key (per_subject_raw as ps),
           worst_subject = min_key (per_subject_raw as ps),
           assessments_count = length as \<rparr>"
  using assms by (simp only: compute_stats_value percentages_iff [symmetric])

lemma compute_stats_count: "compute_stats lit as = Inr st \<Longrightarrow> assessments_count st = length as"
proof (cases "percentages lit as")
  case (Inl e)
  assume "compute_stats lit as = Inr st"
  with compute_stats_error [OF Inl] show ?thesis by simp
next
  case (Inr ps)
  assume "compute_stats lit as = Inr st"
  with compute_stats_value [OF Inr] show ?thesis by auto
qed

lemma compute_stats_two_math:
  "compute_stats lit [doc 50 100 ''Math'', doc 80 100 ''Math''] =
     Inr \<lparr> overall_average = 65, per_subject_average = [(PStr ''Math'', 65)],
           best_subject = Some (PStr ''Math''), worst_subject = Some (PStr ''Math''),
           assessments_count = 2 \<rparr>"
proof -
  have p: "map (percentage lit) [doc 50 100 ''Math'', doc 80 100 ''Math''] = map Inr [50, 80]"
    by (simp add: percentage_doc or_one_def)
  have r: "py_round2 65 = 65" by (simp add: py_round2_def round_half_even_def)
  show ?thesis
    by (simp add: compute_stats_success [OF p] per_subject_raw_def doc_fields arith_mean_def
        max_key_def min_key_def r)
qed

lemma effective_total_or_one: "effective_total t = or_one t"
  by (simp add: effective_total_def or_one_def)

lemma stats_loop_percentages:
  assumes "stats_loop lit as ([], []) = Inr (groups, overall_scores)"
  shows "map (percentage lit) as = map Inr overall_scores"
proof (cases "percentages lit as")
  case (Inl e)
  with assms show ?thesis by (simp add: stats_loop_eq)
next
  case (Inr ps)
  with assms have "overall_scores = ps" by (simp add: stats_loop_eq)
  with Inr show ?thesis by (simp add: percentages_iff)
qed

lemma compute_stats_zero_total:
  "compute_stats lit [doc 10 0 ''X''] =
     Inr \<lparr> overall_average = 1000, per_subject_average = [(PStr ''X'', 1000)],
           best_subject = Some (PStr ''X''), worst_subject = Some (PStr ''X''),
           assessments_count = 1 \<rparr>"
proof -
  have p: "map (percentage lit) [doc 10 0 ''X''] = map Inr [1000]"
    by (simp add: percentage_doc or_one_def)
  have r: "py_round2 1000 = 1000" by (simp add: py_round2_def round_half_even_def)
  show ?thesis
    by (simp add: compute_stats_success [OF p] per_subject_raw_def doc_fields arith_mean_def
        max_key_def min_key_def r)
qed

lemma dict_get_missing: "a k = None \<Longrightarrow> dict_get a k d = d"
  by (simp add: dict_get_def)


























subsection \<open>Lemmas on the routes\<close>

lemma hex_object_id_1: "hex_object_id (PStr ''000000000000000000000001'') = Some 1"
  by code_simp

lemma hex_object_id_9: "hex_object_id (PStr ''000000000000000000000009'') = Some 9"
  by code_simp

lemma hex_object_id_bad: "hex_object_id (PStr ''not-an-object-id'') = None"
  by code_simp

lemma lookup_student_None:
  assumes "\<forall>i. oid (PStr sid) = Some i \<longrightarrow> map_of (student db) i = None \<or> fault (FindOne i)"
  shows "lookup_student fault oid db sid = None"
proof (cases "oid (PStr sid)")
  case None
  then show ?thesis by (simp add: lookup_student_def to_object_id_def)
next
  case (Some i)
  with assms have "map_of (student db) i = None \<or> fault (FindOne i)" by simp
  with Some show ?thesis
    by (auto simp: lookup_student_def to_object_id_def find_one_def)
qed

lemma lookup_student_Some:
  assumes "oid (PStr sid) = Some i" and "\<not> fault (FindOne i)" and "map_of (student db) i = Some d"
  shows "lookup_student fault oid db sid = Some d"
  using assms by (simp add: lookup_student_def to_object_id_def find_one_def)

lemma avg_le_total: "avg_le x y \<or> avg_le y x"
  by (cases x; cases y) auto

lemma avg_le_trans: "avg_le x y \<Longrightarrow> avg_le y z \<Longrightarrow> avg_le x z"
  by (cases x; cases y; cases z) auto

lemma set_insert_desc: "set (insert_desc r xs) = insert r (set xs)"
  by (induction xs) auto

lemma sorted_insert_desc:
  assumes "sorted_wrt (\<lambda>x y. avg_ge (avgPct x) (avgPct y)) xs"
  shows "sorted_wrt (\<lambda>x y. avg_ge (avgPct x) (avgPct y)) (insert_desc r xs)"
  using assms
proof (induction xs)
  case Nil
  show ?case by simp
next
  case (Cons x xs)
  show ?case
  proof (cases "avg_le (avgPct r) (avgPct x)")
    case True
    have "\<forall>y\<in>set (insert_desc r xs). avg_ge (avgPct x) (avgPct y)"
      using Cons.prems True by (auto simp: set_insert_desc avg_ge_def)
    moreover have "sorted_wrt (\<lambda>x y. avg_ge (avgPct x) (avgPct y)) (insert_desc r xs)"
      using Cons.IH Cons.prems by simp
    ultimately show ?thesis using True by simp
  next
    case False
    then have rx: "avg_le (avgPct x) (avgPct r)" using avg_le_total by blast
    have "\<forall>y\<in>set xs. avg_le (avgPct y) (avgPct r)"
    proof
      fix y assume "y \<in> set xs"
      with Cons.prems have "avg_le (avgPct y) (avgPct x)" by (auto simp: avg_ge_def)
      then show "avg_le (avgPct y) (avgPct r)" using rx by (rule avg_le_trans)
    qed
    with rx Cons.prems False show ?thesis by (simp add: avg_ge_def)
  qed
qed

lemma sorted_sort_desc: "sorted_wrt (\<lambda>x y. avg_ge (avgPct x) (avgPct y)) (sort_desc rs)"
  by (induction rs) (simp_all add: sorted_insert_desc)

lemma aggregate_sorted:
  assumes "aggregate fault db = Inr rows"
  shows "length rows \<le> 5 \<and> sorted_wrt (\<lambda>x y. avg_ge (avgPct x) (avgPct y)) rows"
proof (cases "fault Aggregate")
  case True
  with assms show ?thesis by (simp add: aggregate_def)
next
  case False
  show ?thesis
  proof (cases "group_stage [] (map snd (assessment db))")
    case (Inl e)
    with assms False show ?thesis by (simp add: aggregate_def)
  next
    case (Inr groups)
    with assms False have rows: "rows = take 5 (sort_desc (map make_row groups))"
      by (simp add: aggregate_def)
    have "sorted_wrt (\<lambda>x y. avg_ge (avgPct x) (avgPct y)) (take 5 (sort_desc (map make_row groups)))"
      by (rule sorted_wrt_take) (rule sorted_sort_desc)
    then show ?thesis by (simp add: rows)
  qed
qed

lemma attach_names_avg:
  "attach_names fault oid db rows = Inr ts \<Longrightarrow> map top_avgPct ts = map avgPct rows"
proof (induction rows arbitrary: ts)
  case Nil
  then show ?case by simp
next
  case (Cons t rows)
  from Cons.prems obtain i where i: "to_object_id oid (row_id t) = Inr i"
    by (cases "to_object_id oid (row_id t)") simp_all
  from Cons.prems i obtain sdoc where sdoc: "find_one fault db i = Inr sdoc"
    by (cases "find_one fault db i") simp_all
  from Cons.prems i sdoc obtain ts' where rest: "attach_names fault oid db rows = Inr ts'"
    by (cases "attach_names fault oid db rows") simp_all
  from Cons.prems i sdoc rest have "top_avgPct (hd ts) = avgPct t" "tl ts = ts'" "ts \<noteq> []"
    by auto
  with Cons.IH [OF rest] show ?case by (cases ts) simp_all
qed

lemma top_students_of_cases:
  "top_students_of fault oid db = [] \<or>
   (\<exists>rows. aggregate fault db = Inr rows \<and> attach_names fault oid db rows = Inr (top_students_of fault oid db))"
proof (cases "aggregate fault db")
  case (Inl e)
  then show ?thesis by (simp add: top_students_of_def)
next
  case (Inr rows)
  then show ?thesis
    by (cases "attach_names fault oid db rows") (simp_all add: top_students_of_def)
qed

lemma top_students_of_sorted:
  "length (top_students_of fault oid db) \<le> 5
   \<and> sorted_wrt (\<lambda>x y. avg_ge (top_avgPct x) (top_avgPct y)) (top_students_of fault oid db)"
proof -
  from top_students_of_cases [of fault oid db] show ?thesis
  proof
    assume "top_students_of fault oid db = []"
    then show ?thesis by simp
  next
    assume "\<exists>rows. aggregate fault db = Inr rows
        \<and> attach_names fault oid db rows = Inr (top_students_of fault oid db)"
    then obtain rows where agg: "aggregate fault db = Inr rows"
      and att: "attach_names fault oid db rows = Inr (top_students_of fault oid db)" by blast
    have m: "map top_avgPct (top_students_of fault oid db) = map avgPct rows"
      using att by (rule attach_names_avg)
    from arg_cong [OF m, of length]
    have eq: "length (top_students_of fault oid db) = length rows" by simp
    have len: "length (top_students_of fault oid db) \<le> 5"
      using aggregate_sorted [OF agg] eq by simp
    have "sorted_wrt avg_ge (map avgPct rows)"
      using aggregate_sorted [OF agg] by (simp add: sorted_wrt_map)
    then have "sorted_wrt avg_ge (map top_avgPct (top_students_of fault oid db))"
      by (simp only: m)
    then have "sorted_wrt (\<lambda>x y. avg_ge (top_avgPct x) (top_avgPct y))
        (top_students_of fault oid db)"
      by (simp add: sorted_wrt_map)
    with len show ?thesis by simp
  qed
qed

lemma add_pct_numeric:
  "a ''score'' = Some (PNum sc) \<Longrightarrow> a ''total'' = Some (PNum t) \<Longrightarrow>
   add_pct a = Inr (Some (sc / (if 0 < t then t else 1) * 100))"
  by (simp add: add_pct_def cond_total_def mongo_divide_def dict_get_def)

lemma overall_overview_top:
  "overall_overview lit fault oid db = Inr ov \<Longrightarrow> top_students ov = top_students_of fault oid db"
proof -
  assume run: "overall_overview lit fault oid db = Inr ov"
  then obtain docs where docs: "get_documents fault db = Inr docs"
    by (cases "get_documents fault db") (simp_all add: overall_overview_def)
  with run obtain st where st: "compute_stats lit docs = Inr st"
    by (cases "compute_stats lit docs") (simp_all add: overall_overview_def)
  with run docs have "ov = with_top_students st (top_students_of fault oid db)"
    by (simp add: overall_overview_def)
  then show ?thesis by (simp add: with_top_students_def)
qed

lemma avg_ge_Some: "avg_ge (Some x) (Some y) \<longleftrightarrow> y \<le> x"
  by (simp add: avg_ge_def)

lemma board_top:
  "top_students_of (\<lambda>c. False) hex_object_id board_db =
     [\<lparr> top_student_id = PStr ''000000000000000000000004'', top_avgPct = Some 3000,
         top_count = 1, student_name = PStr ''Edsger'' \<rparr>,
      \<lparr> top_student_id = PStr ''000000000000000000000003'', top_avgPct = Some 100,
         top_count = 1, student_name = PStr ''Grace'' \<rparr>,
      \<lparr> top_student_id = PStr ''000000000000000000000001'', top_avgPct = Some 80,
         top_count = 2, student_name = PStr ''Ada'' \<rparr>,
      \<lparr> top_student_id = PStr ''000000000000000000000006'', top_avgPct = Some 60,
         top_count = 1, student_name = PNone \<rparr>,
      \<lparr> top_student_id = PStr ''000000000000000000000002'', top_avgPct = Some 50,
         top_count = 1, student_name = PStr ''Alan'' \<rparr>]"
  by code_simp

lemma board_overview:
  "overall_overview (\<lambda>s. None) (\<lambda>c. False) hex_object_id board_db =
     Inr (with_top_students
       \<lparr> overall_average = 48429 / 100,
         per_subject_average = [(PStr ''Math'', 800), (PStr ''Science'', 6333 / 100)],
         best_subject = Some (PStr ''Math''), worst_subject = Some (PStr ''Science''),
         assessments_count = 7 \<rparr>
       (top_students_of (\<lambda>c. False) hex_object_id board_db))"
  by code_simp

lemma overview_value:
  assumes "get_documents fault db = Inr docs" and "compute_stats lit docs = Inr st"
  shows "overall_overview lit fault oid db = Inr (with_top_students st (top_students_of fault oid db))"
  using assms by (simp add: overall_overview_def)

lemma bad_docs:
  "get_documents (\<lambda>c. False) bad_db =
     Inr [entry ''000000000000000000000001'' 90 100 ''Math'', entry ''not-an-object-id'' 50 100 ''Math'']"
  by (simp add: get_documents_def bad_db_def)

lemma bad_stats:
  "compute_stats (\<lambda>s. None)
     [entry ''000000000000000000000001'' 90 100 ''Math'', entry ''not-an-object-id'' 50 100 ''Math''] =
     Inr \<lparr> overall_average = 70, per_subject_average = [(PStr ''Math'', 70)],
           best_subject = Some (PStr ''Math''), worst_subject = Some (PStr ''Math''),
           assessments_count = 2 \<rparr>"
  by code_simp

lemma bad_aggregate:
  "aggregate (\<lambda>c. False) bad_db =
     Inr [\<lparr> row_id = PStr ''000000000000000000000001'', avgPct = Some 90, count = 1 \<rparr>,
          \<lparr> row_id = PStr ''not-an-object-id'', avgPct = Some 50, count = 1 \<rparr>]"
  by code_simp

lemma bad_attach:
  "attach_names (\<lambda>c. False) hex_object_id bad_db
     [\<lparr> row_id = PStr ''000000000000000000000001'', avgPct = Some 90, count = 1 \<rparr>,
      \<lparr> row_id = PStr ''not-an-object-id'', avgPct = Some 50, count = 1 \<rparr>] =
     Inl (HTTPException 400)"
  by code_simp

lemma lookup_list_group_insert:
  "lookup_list (group_insert kvs k p) k' =
     (if k' = k then lookup_list kvs k @ [p] else lookup_list kvs k')"
  by (induction kvs k p rule: group_insert.induct) (auto simp: lookup_list_def)

lemma keys_group_insert:
  "map fst (group_insert kvs k p) =
     (if k \<in> set (map fst kvs) then map fst kvs else map fst kvs @ [k])"
  by (induction kvs k p rule: group_insert.induct) auto

lemma distinct_group_insert:
  "distinct (map fst kvs) \<Longrightarrow> distinct (map fst (group_insert kvs k p))"
  by (simp add: keys_group_insert)

lemma group_stage_distinct:
  "group_stage groups docs = Inr G \<Longrightarrow> distinct (map fst groups) \<Longrightarrow> distinct (map fst G)"
proof (induction docs arbitrary: groups)
  case Nil
  then show ?case by simp
next
  case (Cons a docs)
  from Cons.prems(1) obtain p where p: "add_pct a = Inr p"
    by (cases "add_pct a") simp_all
  with Cons.prems(1)
  have "group_stage (group_insert groups (dict_get a ''student_id'' PNone) p) docs = Inr G"
    by simp
  then show ?case
    by (rule Cons.IH) (rule distinct_group_insert [OF Cons.prems(2)])
qed

lemma group_stage_lookup:
  "group_stage groups docs = Inr G \<Longrightarrow>
   lookup_list G k = lookup_list groups k @ student_pcts k docs"
proof (induction docs arbitrary: groups)
  case Nil
  then show ?case by (simp add: student_pcts_def)
next
  case (Cons a docs)
  from Cons.prems obtain p where p: "add_pct a = Inr p"
    by (cases "add_pct a") simp_all
  with Cons.prems
  have "group_stage (group_insert groups (dict_get a ''student_id'' PNone) p) docs = Inr G"
    by simp
  from Cons.IH [OF this] show ?case
    by (simp add: lookup_list_group_insert student_pcts_def p)
qed

lemma lookup_list_mem:
  "distinct (map fst kvs) \<Longrightarrow> (k, v) \<in> set kvs \<Longrightarrow> lookup_list kvs k = v"
  by (simp add: lookup_list_def)

lemma set_sort_desc: "set (sort_desc rs) = set rs"
  by (induction rs) (simp_all add: set_insert_desc)

lemma distinct_ids_insert_desc:
  "distinct (map row_id (insert_desc r xs)) \<longleftrightarrow> distinct (map row_id (r # xs))"
  by (induction xs) (auto simp: set_insert_desc)

lemma distinct_ids_sort_desc:
  "distinct (map row_id (sort_desc rs)) \<longleftrightarrow> distinct (map row_id rs)"
  by (induction rs) (simp_all add: distinct_ids_insert_desc set_sort_desc)

lemma row_ids_make_row: "map row_id (map make_row G) = map fst G"
  by (simp add: make_row_def)

lemma aggregate_rows:
  assumes "aggregate fault db = Inr rows"
  shows "distinct (map row_id rows)
     \<and> (\<forall>r\<in>set rows.
          avgPct r = mongo_avg (student_pcts (row_id r) (map snd (assessment db)))
          \<and> count r = length (student_pcts (row_id r) (map snd (assessment db))))"
proof -
  let ?docs = "map snd (assessment db)"
  from assms have nf: "\<not> fault Aggregate"
    by (cases "fault Aggregate") (simp_all add: aggregate_def)
  with assms obtain G where G: "group_stage [] ?docs = Inr G"
    by (cases "group_stage [] ?docs") (simp_all add: aggregate_def)
  with assms nf have rows: "rows = take 5 (sort_desc (map make_row G))"
    by (simp add: aggregate_def)
  have dG: "distinct (map fst G)" by (rule group_stage_distinct [OF G]) simp
  have "distinct (map row_id (sort_desc (map make_row G)))"
    by (simp only: distinct_ids_sort_desc row_ids_make_row dG)
  then have d: "distinct (map row_id rows)"
    unfolding rows by (simp only: take_map [symmetric] distinct_take)
  have each: "avgPct r = mongo_avg (student_pcts (row_id r) ?docs)
      \<and> count r = length (student_pcts (row_id r) ?docs)" if "r \<in> set rows" for r
  proof -
    from that have "r \<in> set (sort_desc (map make_row G))"
      unfolding rows by (rule in_set_takeD)
    then have "r \<in> make_row ` set G" by (simp add: set_sort_desc)
    then obtain k v where kv: "(k, v) \<in> set G" and r: "r = make_row (k, v)" by auto
    have "lookup_list G k = lookup_list [] k @ student_pcts k ?docs"
      by (rule group_stage_lookup [OF G])
    moreover have "lookup_list G k = v" by (rule lookup_list_mem [OF dG kv])
    ultimately have "v = student_pcts k ?docs" by (simp add: lookup_list_def)
    then show ?thesis by (simp add: r make_row_def)
  qed
  from d each show ?thesis by blast
qed

lemma attach_names_rows:
  "attach_names fault oid db rows = Inr ts \<Longrightarrow>
   map (\<lambda>t. (top_student_id t, top_avgPct t, top_count t)) ts =
   map (\<lambda>r. (row_id r, avgPct r, count r)) rows"
proof (induction rows arbitrary: ts)
  case Nil
  then show ?case by simp
next
  case (Cons t rows)
  from Cons.prems obtain i where i: "to_object_id oid (row_id t) = Inr i"
    by (cases "to_object_id oid (row_id t)") simp_all
  from Cons.prems i obtain sdoc where sdoc: "find_one fault db i = Inr sdoc"
    by (cases "find_one fault db i") simp_all
  from Cons.prems i sdoc obtain ts' where rest: "attach_names fault oid db rows = Inr ts'"
    by (cases "attach_names fault oid db rows") simp_all
  from Cons.prems i sdoc rest obtain x where ts: "ts = x # ts'"
    and x: "top_student_id x = row_id t" "top_avgPct x = avgPct t" "top_count x = count t"
    by auto
  with Cons.IH [OF rest] show ?case by simp
qed

lemma top_students_of_means:
  "distinct (map top_student_id (top_students_of fault oid db))
   \<and> (\<forall>t\<in>set (top_students_of fault oid db).
        top_avgPct t = mongo_avg (student_pcts (top_student_id t) (map snd (assessment db)))
        \<and> top_count t = length (student_pcts (top_student_id t) (map snd (assessment db))))"
proof -
  from top_students_of_cases [of fault oid db] show ?thesis
  proof
    assume "top_students_of fault oid db = []"
    then show ?thesis by simp
  next
    assume "\<exists>rows. aggregate fault db = Inr rows
        \<and> attach_names fault oid db rows = Inr (top_students_of fault oid db)"
    then obtain rows where agg: "aggregate fault db = Inr rows"
      and att: "attach_names fault oid db rows = Inr (top_students_of fault oid db)" by blast
    let ?ts = "top_students_of fault oid db"
    let ?docs = "map snd (assessment db)"
    have m: "map (\<lambda>t. (top_student_id t, top_avgPct t, top_count t)) ?ts =
        map (\<lambda>r. (row_id r, avgPct r, count r)) rows"
      using att by (rule attach_names_rows)
    from arg_cong [OF m, of "map fst"] have ids: "map top_student_id ?ts = map row_id rows"
      by (simp add: comp_def)
    have d: "distinct (map top_student_id ?ts)"
      using aggregate_rows [OF agg] by (simp only: ids)
    have each: "top_avgPct t = mongo_avg (student_pcts (top_student_id t) ?docs)
        \<and> top_count t = length (student_pcts (top_student_id t) ?docs)" if "t \<in> set ?ts" for t
    proof -
      from that have "(top_student_id t, top_avgPct t, top_count t)
          \<in> set (map (\<lambda>t. (top_student_id t, top_avgPct t, top_count t)) ?ts)" by simp
      then have "(top_student_id t, top_avgPct t, top_count t)
          \<in> set (map (\<lambda>r. (row_id r, avgPct r, count r)) rows)" by (simp only: m)
      then obtain r where "r \<in> set rows" "top_student_id t = row_id r"
        "top_avgPct t = avgPct r" "top_count t = count r" by auto
      with aggregate_rows [OF agg] show ?thesis by simp
    qed
    from d each show ?thesis by blast
  qed
qed

lemma board_pcts:
  "student_pcts (PStr ''000000000000000000000001'') (map snd (assessment board_db)) =
     [Some 90, Some 70]"
  by code_simp

subsection \<open>Claims on compute_stats\<close>

text \<open>
  C5: \<^verbatim>\<open>compute_stats([])\<close> is exactly overall_average 0.0, an empty per_subject_average,
  best_subject and worst_subject \<^verbatim>\<open>None\<close> and assessments_count 0; and for every input
  list the returned assessments_count is the length of the list (the function returns
  whenever every percentage of the list is computed).
\<close>

theorem compute_stats_empty_and_count:
  "compute_stats lit [] =
     Inr \<lparr> overall_average = 0, per_subject_average = [], best_subject = None,
           worst_subject = None, assessments_count = 0 \<rparr>
   \<and> (compute_stats lit as = Inr st \<longrightarrow> assessments_count st = length as)
   \<and> (map (percentage lit) as = map Inr ps \<longrightarrow>
        (\<exists>st'. compute_stats lit as = Inr st' \<and> assessments_count st' = length as))"
proof (intro conjI impI)
  show "compute_stats lit [] =
     Inr \<lparr> overall_average = 0, per_subject_average = [], best_subject = None,
           worst_subject = None, assessments_count = 0 \<rparr>"
    by (simp add: compute_stats_def py_round2_zero)
next
  assume "compute_stats lit as = Inr st"
  then show "assessments_count st = length as" by (rule compute_stats_count)
next
  assume "map (percentage lit) as = map Inr ps"
  from compute_stats_success [OF this]
  show "\<exists>st'. compute_stats lit as = Inr st' \<and> assessments_count st' = length as" by simp
qed

text \<open>The theorem at the two Math assessments of the spec's example.\<close>

theorem compute_stats_empty_and_count_witness:
  "compute_stats (\<lambda>s. None) [doc 50 100 ''Math'', doc 80 100 ''Math''] =
     Inr \<lparr> overall_average = 65, per_subject_average = [(PStr ''Math'', 65)],
           best_subject = Some (PStr ''Math''), worst_subject = Some (PStr ''Math''),
           assessments_count = 2 \<rparr>
   \<and> map (percentage (\<lambda>s. None)) [doc 50 100 ''Math'', doc 80 100 ''Math''] = map Inr [50, 80]
   \<and> assessments_count \<lparr> overall_average = 65, per_subject_average = [(PStr ''Math'', 65)],
           best_subject = Some (PStr ''Math''), worst_subject = Some (PStr ''Math''),
           assessments_count = 2 \<rparr> = length [doc 50 100 ''Math'', doc 80 100 ''Math'']"
  using compute_stats_empty_and_count [of "\<lambda>s. None" "[doc 50 100 ''Math'', doc 80 100 ''Math'']"
      "\<lparr> overall_average = 65, per_subject_average = [(PStr ''Math'', 65)],
           best_subject = Some (PStr ''Math''), worst_subject = Some (PStr ''Math''),
           assessments_count = 2 \<rparr>" "[50, 80]"]
  by (simp add: compute_stats_two_math percentage_doc or_one_def)

text \<open>
  C1: for every assessment its percentage is (score / effective_total) * 100, where
  effective_total is the total unless the total is zero, in which case it is 1. The
  division is guarded: neither one percentage nor compute_stats ever raises
  \<^verbatim>\<open>ZeroDivisionError\<close>; the percentages are what the loop collects; and for the input
  \<^verbatim>\<open>[{score: 10, total: 0, subject: "X"}]\<close> the percentage is 1000.0.
\<close>

theorem percentage_guarded:
  "(py_float lit (dict_get a ''score'' (PNum 0)) = Inr sc \<and>
    py_float lit (dict_get a ''total'' (PNum 0)) = Inr tot \<longrightarrow>
      percentage lit a = Inr (sc / effective_total tot * 100))
   \<and> percentage lit a \<noteq> Inl ZeroDivisionError
   \<and> compute_stats lit as \<noteq> Inl ZeroDivisionError
   \<and> (stats_loop lit as ([], []) = Inr (groups, overall_scores) \<longrightarrow>
        map (percentage lit) as = map Inr overall_scores)
   \<and> percentage lit (doc 10 0 ''X'') = Inr 1000
   \<and> compute_stats lit [doc 10 0 ''X''] =
        Inr \<lparr> overall_average = 1000, per_subject_average = [(PStr ''X'', 1000)],
              best_subject = Some (PStr ''X''), worst_subject = Some (PStr ''X''),
              assessments_count = 1 \<rparr>"
proof (intro conjI impI)
  assume "py_float lit (dict_get a ''score'' (PNum 0)) = Inr sc \<and>
    py_float lit (dict_get a ''total'' (PNum 0)) = Inr tot"
  then show "percentage lit a = Inr (sc / effective_total tot * 100)"
    by (simp add: percentage_value effective_total_or_one)
next
  show "percentage lit a \<noteq> Inl ZeroDivisionError" by (rule percentage_not_zero_division)
next
  show "compute_stats lit as \<noteq> Inl ZeroDivisionError" by (rule compute_stats_not_zero_division)
next
  assume "stats_loop lit as ([], []) = Inr (groups, overall_scores)"
  then show "map (percentage lit) as = map Inr overall_scores" by (rule stats_loop_percentages)
next
  show "percentage lit (doc 10 0 ''X'') = Inr 1000" by (simp add: percentage_doc or_one_def)
next
  show "compute_stats lit [doc 10 0 ''X''] =
        Inr \<lparr> overall_average = 1000, per_subject_average = [(PStr ''X'', 1000)],
              best_subject = Some (PStr ''X''), worst_subject = Some (PStr ''X''),
              assessments_count = 1 \<rparr>"
    by (rule compute_stats_zero_total)
qed

text \<open>
  The theorem at an assessment with total 0, in a list of two.
\<close>

theorem percentage_guarded_witness:
  "py_float (\<lambda>s. None) (dict_get (doc 30 0 ''X'') ''score'' (PNum 0)) = Inr 30
   \<and> py_float (\<lambda>s. None) (dict_get (doc 30 0 ''X'') ''total'' (PNum 0)) = Inr 0
   \<and> percentage (\<lambda>s. None) (doc 30 0 ''X'') = Inr 3000
   \<and> stats_loop (\<lambda>s. None) [doc 30 0 ''X'', doc 1 4 ''Y''] ([], []) =
        Inr ([(PStr ''X'', [3000]), (PStr ''Y'', [25])], [3000, 25])
   \<and> map (percentage (\<lambda>s. None)) [doc 30 0 ''X'', doc 1 4 ''Y''] = map Inr [3000, 25]"
  using percentage_guarded [of "\<lambda>s. None" "doc 30 0 ''X''" 30 0 "[doc 30 0 ''X'', doc 1 4 ''Y'']"
      "[(PStr ''X'', [3000]), (PStr ''Y'', [25])]" "[3000, 25]"]
  by (simp add: doc_fields percentage_doc or_one_def effective_total_def)

text \<open>
  C10: an assessment without a score field has score 0: its percentage is 0.0 unless
  the conversion of its total raises, no exception comes from the missing score, and
  the loop appends 0.0 to the subject's group and to the overall scores.
\<close>

theorem missing_score_is_zero:
  assumes "a ''score'' = None"
  shows "percentage lit a =
           (case py_float lit (dict_get a ''total'' (PNum 0)) of
              Inl e \<Rightarrow> Inl e | Inr t \<Rightarrow> Inr 0)
         \<and> (py_float lit (dict_get a ''total'' (PNum 0)) = Inr tot \<longrightarrow>
              stats_loop lit (a # as) (groups, overall_scores) =
                stats_loop lit as
                  (setdefault_append groups (subject_of a) 0, overall_scores @ [0]))"
proof -
  have sc: "py_float lit (dict_get a ''score'' (PNum 0)) = Inr 0"
    using assms by (simp add: dict_get_def)
  have p: "percentage lit a =
           (case py_float lit (dict_get a ''total'' (PNum 0)) of
              Inl e \<Rightarrow> Inl e | Inr t \<Rightarrow> Inr 0)"
    by (cases "py_float lit (dict_get a ''total'' (PNum 0))")
       (simp_all add: percentage_def sc py_div_or_one)
  show ?thesis
  proof (intro conjI impI)
    show "percentage lit a =
           (case py_float lit (dict_get a ''total'' (PNum 0)) of
              Inl e \<Rightarrow> Inl e | Inr t \<Rightarrow> Inr 0)"
      by (rule p)
  next
    assume "py_float lit (dict_get a ''total'' (PNum 0)) = Inr tot"
    then have "percentage lit a = Inr 0" by (simp add: p)
    then show "stats_loop lit (a # as) (groups, overall_scores) =
                stats_loop lit as
                  (setdefault_append groups (subject_of a) 0, overall_scores @ [0])"
      by simp
  qed
qed

text \<open>
  The theorem at \<^verbatim>\<open>{"total": 100, "subject": "Math"}\<close>, met after one Math percentage of 80.
\<close>

theorem missing_score_is_zero_witness:
  "[''total'' \<mapsto> PNum 100, ''subject'' \<mapsto> PStr ''Math''] ''score'' = None
   \<and> percentage (\<lambda>s. None) [''total'' \<mapsto> PNum 100, ''subject'' \<mapsto> PStr ''Math''] = Inr 0
   \<and> py_float (\<lambda>s. None)
        (dict_get [''total'' \<mapsto> PNum 100, ''subject'' \<mapsto> PStr ''Math''] ''total'' (PNum 0)) = Inr 100
   \<and> stats_loop (\<lambda>s. None) [[''total'' \<mapsto> PNum 100, ''subject'' \<mapsto> PStr ''Math'']]
        ([(PStr ''Math'', [80])], [80]) = Inr ([(PStr ''Math'', [80, 0])], [80, 0])"
proof -
  have m: "[''total'' \<mapsto> PNum 100, ''subject'' \<mapsto> PStr ''Math''] ''score'' = None" by simp
  show ?thesis
    using m missing_score_is_zero [of "[''total'' \<mapsto> PNum 100, ''subject'' \<mapsto> PStr ''Math'']"
        "\<lambda>s. None" 100 "[]" "[(PStr ''Math'', [80])]" "[80]"]
    by (simp add: dict_get_def subject_of_def)
qed







subsection \<open>Claims on the routes\<close>

text \<open>
  C6: a create-assessment request whose student_id does not resolve to an existing
  Student record (the identifier is malformed, no student has it, or the lookup fails)
  ends in HTTP 404, and the store is unchanged.
\<close>

theorem create_assessment_unknown_student:
  assumes "\<forall>i. oid (PStr (student_id a)) = Some i \<longrightarrow>
             map_of (student db) i = None \<or> fault (FindOne i)"
  shows "create_assessment fault oid db a = (Inl (HTTPException 404), db)"
proof -
  have "lookup_student fault oid db (student_id a) = None"
    using assms
    by (rule lookup_student_None [where oid = oid and sid = "student_id a" and db = db
          and fault = fault])
  then show ?thesis by (simp add: create_assessment_def)
qed

text \<open>
  The theorem at a well-formed identifier that no student has; the identifier of an
  existing student creates the record.
\<close>

theorem create_assessment_unknown_student_witness:
  "hex_object_id (PStr (student_id (request ''000000000000000000000009''))) = Some 9
   \<and> map_of (student sample_db) 9 = None
   \<and> create_assessment (\<lambda>c. False) hex_object_id sample_db (request ''000000000000000000000009'') =
        (Inl (HTTPException 404), sample_db)
   \<and> fst (create_assessment (\<lambda>c. False) hex_object_id sample_db
          (request ''000000000000000000000001'')) = Inr 4"
proof -
  have id9: "hex_object_id (PStr (student_id (request ''000000000000000000000009''))) = Some 9"
    by (simp add: request_def hex_object_id_9 del: hex_object_id.simps)
  have none: "map_of (student sample_db) 9 = None" by (simp add: sample_db_def)
  have h: "\<forall>i. hex_object_id (PStr (student_id (request ''000000000000000000000009''))) = Some i \<longrightarrow>
        map_of (student sample_db) i = None \<or> (\<lambda>c. False) (FindOne i)"
    using id9 none by simp
  have ok: "lookup_student (\<lambda>c. False) hex_object_id sample_db ''000000000000000000000001'' =
      Some [''name'' \<mapsto> PStr ''Ada'']"
    by (rule lookup_student_Some [where oid = hex_object_id and i = 1])
       (simp_all add: hex_object_id_1 sample_db_def del: hex_object_id.simps)
  have "fst (create_assessment (\<lambda>c. False) hex_object_id sample_db
          (request ''000000000000000000000001'')) = Inr 4"
    by (simp add: create_assessment_def request_def ok create_document_def fresh_id_def)
       (simp add: sample_db_def)
  with id9 none h create_assessment_unknown_student [where oid = hex_object_id
      and a = "request ''000000000000000000000009''" and db = sample_db and fault = "\<lambda>c. False"]
  show ?thesis by (simp del: hex_object_id.simps)
qed

text \<open>
  C7: a malformed identifier should give HTTP 400. \<^verbatim>\<open>to_object_id\<close> raises that exception,
  but \<^verbatim>\<open>create_assessment\<close> calls it inside \<^verbatim>\<open>try ... except Exception\<close>, so the
  exception is caught and the request for the student identifier
  \<^verbatim>\<open>"not-an-object-id"\<close> ends in HTTP 404.
\<close>

theorem malformed_student_id_gives_404:
  "to_object_id hex_object_id (PStr ''not-an-object-id'') = Inl (HTTPException 400)
   \<and> create_assessment (\<lambda>c. False) hex_object_id sample_db (request ''not-an-object-id'') =
        (Inl (HTTPException 404), sample_db)"
proof -
  have "lookup_student (\<lambda>c. False) hex_object_id sample_db ''not-an-object-id'' = None"
    by (simp add: lookup_student_def to_object_id_def hex_object_id_bad del: hex_object_id.simps)
  then show ?thesis
    by (simp add: create_assessment_def request_def to_object_id_def hex_object_id_bad
        del: hex_object_id.simps)
qed

text \<open>
  C8: the leaderboard of the overview never has more than 5 entries and is sorted in
  non-increasing order of mean percentage. The percentage of an assessment with numeric
  score and total is score / (total if total > 0 else 1) * 100; the entries are one per
  student_id, each with the mean and the number of the percentages of that student.
\<close>

theorem top_students_sorted_at_most_five:
  "length (top_students_of fault oid db) \<le> 5
   \<and> sorted_wrt (\<lambda>x y. avg_ge (top_avgPct x) (top_avgPct y)) (top_students_of fault oid db)
   \<and> (overall_overview lit fault oid db = Inr ov \<longrightarrow>
        top_students ov = top_students_of fault oid db)
   \<and> (a ''score'' = Some (PNum sc) \<and> a ''total'' = Some (PNum t) \<longrightarrow>
        add_pct a = Inr (Some (sc / (if 0 < t then t else 1) * 100)))
   \<and> distinct (map top_student_id (top_students_of fault oid db))
   \<and> (\<forall>e\<in>set (top_students_of fault oid db).
        top_avgPct e = mongo_avg (student_pcts (top_student_id e) (map snd (assessment db)))
        \<and> top_count e = length (student_pcts (top_student_id e) (map snd (assessment db))))"
proof (intro conjI impI)
  show "length (top_students_of fault oid db) \<le> 5"
    using top_students_of_sorted [of fault oid db] by simp
next
  show "sorted_wrt (\<lambda>x y. avg_ge (top_avgPct x) (top_avgPct y)) (top_students_of fault oid db)"
    using top_students_of_sorted [of fault oid db] by simp
next
  assume "overall_overview lit fault oid db = Inr ov"
  then show "top_students ov = top_students_of fault oid db" by (rule overall_overview_top)
next
  assume "a ''score'' = Some (PNum sc) \<and> a ''total'' = Some (PNum t)"
  then show "add_pct a = Inr (Some (sc / (if 0 < t then t else 1) * 100))"
    by (simp add: add_pct_numeric)
next
  show "distinct (map top_student_id (top_students_of fault oid db))"
    using top_students_of_means [of fault oid db] by simp
next
  show "\<forall>e\<in>set (top_students_of fault oid db).
        top_avgPct e = mongo_avg (student_pcts (top_student_id e) (map snd (assessment db)))
        \<and> top_count e = length (student_pcts (top_student_id e) (map snd (assessment db)))"
    using top_students_of_means [of fault oid db] by simp
qed

text \<open>
  The theorem at a store with six students and seven assessments: five entries remain,
  in descending order, the first one from an assessment with total 0.
\<close>

theorem top_students_sorted_at_most_five_witness:
  "overall_overview (\<lambda>s. None) (\<lambda>c. False) hex_object_id board_db =
     Inr (with_top_students
       \<lparr> overall_average = 48429 / 100,
         per_subject_average = [(PStr ''Math'', 800), (PStr ''Science'', 6333 / 100)],
         best_subject = Some (PStr ''Math''), worst_subject = Some (PStr ''Science''),
         assessments_count = 7 \<rparr>
       (top_students_of (\<lambda>c. False) hex_object_id board_db))
   \<and> length (assessment board_db) = 7 \<and> length (student board_db) = 6
   \<and> map (\<lambda>t. (student_name t, top_avgPct t, top_count t))
        (top_students_of (\<lambda>c. False) hex_object_id board_db) =
        [(PStr ''Edsger'', Some 3000, 1), (PStr ''Grace'', Some 100, 1), (PStr ''Ada'', Some 80, 2),
         (PNone, Some 60, 1), (PStr ''Alan'', Some 50, 1)]
   \<and> entry ''000000000000000000000004'' 30 0 ''Math'' ''score'' = Some (PNum 30)
   \<and> entry ''000000000000000000000004'' 30 0 ''Math'' ''total'' = Some (PNum 0)
   \<and> add_pct (entry ''000000000000000000000004'' 30 0 ''Math'') = Inr (Some 3000)
   \<and> student_pcts (PStr ''000000000000000000000001'') (map snd (assessment board_db)) =
        [Some 90, Some 70]"
  using top_students_sorted_at_most_five [where fault = "\<lambda>c. False" and oid = hex_object_id
      and db = board_db and lit = "\<lambda>s. None"
      and ov = "with_top_students
       \<lparr> overall_average = 48429 / 100,
         per_subject_average = [(PStr ''Math'', 800), (PStr ''Science'', 6333 / 100)],
         best_subject = Some (PStr ''Math''), worst_subject = Some (PStr ''Science''),
         assessments_count = 7 \<rparr>
       (top_students_of (\<lambda>c. False) hex_object_id board_db)"
      and a = "entry ''000000000000000000000004'' 30 0 ''Math''" and sc = 30 and t = 0]
  by (simp add: board_overview board_top board_pcts entry_def) (simp add: board_db_def)

text \<open>
  C9: when the documents are read and compute_stats has returned, a failure of the
  aggregation or of the name lookup of any entry leaves top_students empty, and the
  overview is returned with the fields of compute_stats unchanged.
\<close>

theorem overview_degrades_to_empty_top:
  assumes "get_documents fault db = Inr docs" and "compute_stats lit docs = Inr st"
    and "aggregate fault db = Inl e
         \<or> (\<exists>rows. aggregate fault db = Inr rows \<and> attach_names fault oid db rows = Inl e)"
  shows "overall_overview lit fault oid db = Inr (with_top_students st [])
         \<and> top_students (with_top_students st []) = []
         \<and> stats.truncate (with_top_students st []) = st"
proof -
  have "top_students_of fault oid db = []"
    using assms(3) by (auto simp: top_students_of_def)
  with overview_value [OF assms(1,2)] show ?thesis
    by (simp add: with_top_students_def stats.truncate_def)
qed

text \<open>
  The theorem at a store whose second leaderboard row has a malformed student
  identifier: the name lookup raises, and the overview has an empty leaderboard.
\<close>

theorem overview_degrades_to_empty_top_witness:
  "get_documents (\<lambda>c. False) bad_db =
     Inr [entry ''000000000000000000000001'' 90 100 ''Math'', entry ''not-an-object-id'' 50 100 ''Math'']
   \<and> compute_stats (\<lambda>s. None)
        [entry ''000000000000000000000001'' 90 100 ''Math'', entry ''not-an-object-id'' 50 100 ''Math''] =
        Inr \<lparr> overall_average = 70, per_subject_average = [(PStr ''Math'', 70)],
              best_subject = Some (PStr ''Math''), worst_subject = Some (PStr ''Math''),
              assessments_count = 2 \<rparr>
   \<and> (\<exists>rows. aggregate (\<lambda>c. False) bad_db = Inr rows
          \<and> attach_names (\<lambda>c. False) hex_object_id bad_db rows = Inl (HTTPException 400))
   \<and> overall_overview (\<lambda>s. None) (\<lambda>c. False) hex_object_id bad_db =
        Inr \<lparr> overall_average = 70, per_subject_average = [(PStr ''Math'', 70)],
              best_subject = Some (PStr ''Math''), worst_subject = Some (PStr ''Math''),
              assessments_count = 2, top_students = [] \<rparr>"
proof -
  have fails: "aggregate (\<lambda>c. False) bad_db = Inl (HTTPException 400)
      \<or> (\<exists>rows. aggregate (\<lambda>c. False) bad_db = Inr rows
            \<and> attach_names (\<lambda>c. False) hex_object_id bad_db rows = Inl (HTTPException 400))"
    using bad_aggregate bad_attach by simp
  from overview_degrades_to_empty_top [OF bad_docs bad_stats fails] fails
  show ?thesis
    by (simp add: bad_docs bad_stats bad_aggregate with_top_students_def)
qed

end
